theory Spec2Isabelle
  imports Complex_Main "HOL-Library.Word"
begin

unbundle bit_operations_syntax

section \<open>Python helpers\<close>

text \<open>
  Python floats are modelled by exact rationals; \<open>int(x)\<close> on a float truncates
  towards zero.
\<close>

datatype py_error = IndexError | ZeroDivisionError | UnboundLocalError

definition py_int :: "rat \<Rightarrow> int" where
  "py_int x = (if 0 \<le> x then \<lfloor>x\<rfloor> else \<lceil>x\<rceil>)"

text \<open>
  \<open>xs[i]\<close> on a Python list: a negative index counts from the end, an index out
  of range raises IndexError.
\<close>

definition py_index :: "'a list \<Rightarrow> int \<Rightarrow> py_error + 'a" where
  "py_index xs i =
     (if 0 \<le> i \<and> i < int (length xs) then Inr (xs ! nat i)
      else if i < 0 \<and> - int (length xs) \<le> i then Inr (xs ! nat (int (length xs) + i))
      else Inl IndexError)"

text \<open>
  \<open>xs[a:b]\<close> on a sequence of length \<open>n\<close>: a negative bound has \<open>n\<close> added,
  then both bounds are clamped to \<open>0..n\<close>; the slice is empty when the start is
  not below the stop.
\<close>

definition py_slice_bound :: "nat \<Rightarrow> int \<Rightarrow> nat" where
  "py_slice_bound n i =
     (let j = (if i < 0 then int n + i else i)
      in if j < 0 then 0 else if int n < j then n else nat j)"

definition py_slice :: "'a list \<Rightarrow> int \<Rightarrow> int \<Rightarrow> 'a list" where
  "py_slice xs a b =
     (let lo = py_slice_bound (length xs) a; hi = py_slice_bound (length xs) b
      in drop lo (take hi xs))"

section \<open>frequency\_scanner.py\<close>

datatype ScanState = SCANNING | LOCKED

text \<open>
  The instance attributes of \<open>FrequencyScanner\<close>. The \<open>receiver\<close> handle is
  never read by the methods below and is left out.
\<close>

record FrequencyScanner =
  duration :: rat
  sample_rate :: rat
  all_frequencies :: "rat list"
  state :: ScanState
  locked_frequency :: "rat option"
  current_index :: int
  empty_scan_count :: int

definition FREQUENCIES_2_4GHZ :: "rat list" where
  "FREQUENCIES_2_4GHZ =
     [2459500000, 2444500000, 2429500000, 2474500000, 2434500000, 2414500000]"

definition FREQUENCIES_5_8GHZ :: "rat list" where
  "FREQUENCIES_5_8GHZ =
     [5721500000, 5731500000, 5741500000, 5756500000, 5761500000,
      5771500000, 5786500000, 5801500000, 5816500000, 5831500000]"

definition UNLOCK_THRESHOLD :: int where
  "UNLOCK_THRESHOLD = 10"

definition scanner_init :: "rat \<Rightarrow> rat \<Rightarrow> bool \<Rightarrow> FrequencyScanner" where
  "scanner_init dur rate band_2_4_only =
     \<lparr> duration = dur, sample_rate = rate,
       all_frequencies =
         (if band_2_4_only then FREQUENCIES_2_4GHZ
          else FREQUENCIES_2_4GHZ @ FREQUENCIES_5_8GHZ),
       state = SCANNING, locked_frequency = None,
       current_index = 0, empty_scan_count = 0 \<rparr>"

definition lock_frequency :: "FrequencyScanner \<Rightarrow> rat \<Rightarrow> FrequencyScanner" where
  "lock_frequency s frequency =
     s\<lparr> state := LOCKED, locked_frequency := Some frequency, empty_scan_count := 0 \<rparr>"

definition unlock_frequency :: "FrequencyScanner \<Rightarrow> FrequencyScanner" where
  "unlock_frequency s =
     s\<lparr> state := SCANNING, locked_frequency := None, empty_scan_count := 0 \<rparr>"

definition record_detection :: "FrequencyScanner \<Rightarrow> bool \<Rightarrow> FrequencyScanner" where
  "record_detection s detected =
     (if state s = LOCKED then
        (if detected then s\<lparr> empty_scan_count := 0 \<rparr>
         else
           (let s' = s\<lparr> empty_scan_count := empty_scan_count s + 1 \<rparr>
            in if empty_scan_count s' \<ge> UNLOCK_THRESHOLD then unlock_frequency s' else s'))
      else s)"

text \<open>
  \<open>get_next_frequency\<close> returns the frequency together with the updated scanner.
  Indexing an empty channel list raises IndexError before the modulus is taken.
\<close>

definition get_next_frequency :: "FrequencyScanner \<Rightarrow> py_error + (rat \<times> FrequencyScanner)" where
  "get_next_frequency s =
     (case (if state s = LOCKED then locked_frequency s else None) of
        Some f \<Rightarrow> Inr (f, s)
      | None \<Rightarrow>
          (case py_index (all_frequencies s) (current_index s) of
             Inl e \<Rightarrow> Inl e
           | Inr frequency \<Rightarrow>
               Inr (frequency,
                    s\<lparr> current_index :=
                         (current_index s + 1) mod int (length (all_frequencies s)) \<rparr>)))"

definition reset :: "FrequencyScanner \<Rightarrow> FrequencyScanner" where
  "reset s =
     s\<lparr> state := SCANNING, locked_frequency := None,
        current_index := 0, empty_scan_count := 0 \<rparr>"

definition calculate_num_samples :: "FrequencyScanner \<Rightarrow> int" where
  "calculate_num_samples s = py_int (duration s * sample_rate s)"

text \<open>Recording \<open>k\<close> consecutive results \<open>d\<close>.\<close>

fun record_many :: "nat \<Rightarrow> bool \<Rightarrow> FrequencyScanner \<Rightarrow> FrequencyScanner" where
  "record_many 0 d s = s"
| "record_many (Suc k) d s = record_many k d (record_detection s d)"

text \<open>
  \<open>k\<close> consecutive calls of \<open>get_next_frequency\<close>: the frequencies returned, in
  call order, and the scanner afterwards.
\<close>

fun next_frequencies :: "nat \<Rightarrow> FrequencyScanner \<Rightarrow> py_error + (rat list \<times> FrequencyScanner)" where
  "next_frequencies 0 s = Inr ([], s)"
| "next_frequencies (Suc k) s =
     (case get_next_frequency s of
        Inl e \<Rightarrow> Inl e
      | Inr (f, s') \<Rightarrow>
          (case next_frequencies k s' of
             Inl e \<Rightarrow> Inl e
           | Inr (fs, s'') \<Rightarrow> Inr (f # fs, s'')))"

section \<open>packetizer.py\<close>

text \<open>
  The length window of a packet type, in seconds. For a packet type outside the
  five known ones \<open>min_packet_len_t\<close> is never bound and the function fails at
  its first use.
\<close>

definition packet_len_bounds :: "string \<Rightarrow> bool \<Rightarrow> (rat \<times> rat) option" where
  "packet_len_bounds packet_type legacy =
     (if packet_type = ''droneid'' then
        (if legacy then Some (565 / 1000000, 600 / 1000000)
         else Some (630 / 1000000, 665 / 1000000))
      else if packet_type = ''c2'' then Some (500 / 1000000, 520 / 1000000)
      else if packet_type = ''beacon'' then Some (490 / 1000000, 540 / 1000000)
      else if packet_type = ''pairing'' then Some (490 / 1000000, 540 / 1000000)
      else if packet_type = ''video'' then Some (630 / 1000000, 665 / 1000000)
      else None)"

definition start_offset :: rat where
  "start_offset = 3 * (15 / 1000000)"

definition end_offset :: rat where
  "end_offset = 3 * (15 / 1000000)"

text \<open>
  One entry of the result of \<open>scipy.signal.find_peaks\<close>: the entries of
  \<open>properties["left_bases"]\<close> and \<open>properties["right_bases"]\<close> of one peak.
  (\<open>properties["widths"]\<close> is only printed in debug mode.)
\<close>

record peak =
  left_base :: int
  right_base :: int

text \<open>
  The slice \<open>raw_data[int((start-start_offset)*Fs):int((end+end_offset)*Fs)]\<close> of
  one peak, where \<open>dt\<close> is the STFT time step \<open>t[1]-t[0]\<close>.
\<close>

definition slice_start :: "rat \<Rightarrow> rat \<Rightarrow> peak \<Rightarrow> int" where
  "slice_start Fs dt p = py_int ((of_int (left_base p) * dt - start_offset) * Fs)"

definition slice_stop :: "rat \<Rightarrow> rat \<Rightarrow> peak \<Rightarrow> int" where
  "slice_stop Fs dt p = py_int ((of_int (right_base p) * dt + end_offset) * Fs)"

definition packet_data_of :: "'a list \<Rightarrow> rat \<Rightarrow> rat \<Rightarrow> peak \<Rightarrow> 'a list" where
  "packet_data_of raw_data Fs dt p =
     py_slice raw_data (slice_start Fs dt p) (slice_stop Fs dt p)"

text \<open>
  The loop over the peaks. \<open>estimate_offset\<close> (module \<open>helpers\<close>) is a parameter:
  it takes the candidate's samples, the sample rate and \<open>skip_bw_check\<close> and returns
  the offset and the \<open>found\<close> flag. The loop state is the list \<open>packets\<close> and
  \<open>center_freq_offset\<close>.
\<close>

fun packet_loop ::
  "('a list \<Rightarrow> rat \<Rightarrow> bool \<Rightarrow> rat \<times> bool) \<Rightarrow> 'a list \<Rightarrow> rat \<Rightarrow> rat \<Rightarrow> bool \<Rightarrow>
   peak list \<Rightarrow> 'a list list \<times> rat \<Rightarrow> 'a list list \<times> rat" where
  "packet_loop estimate_offset raw_data Fs dt legacy [] (packets, center_freq_offset) =
     (packets, center_freq_offset)"
| "packet_loop estimate_offset raw_data Fs dt legacy (p # ps) (packets, center_freq_offset) =
     (let packet_data = packet_data_of raw_data Fs dt p;
          (cfo, found) = estimate_offset packet_data Fs legacy
      in if \<not> found \<and> \<not> legacy then
           packet_loop estimate_offset raw_data Fs dt legacy ps (packets, cfo)
         else
           (let cfo' = (if \<not> found then 0 else cfo);
                packets' = packets @ [packet_data]
            in if length packets' \<ge> 3 then (packets', cfo')
               else packet_loop estimate_offset raw_data Fs dt legacy ps (packets', cfo')))"

text \<open>
  \<open>find_packet_candidate_time\<close>. The spectral front end (the calls of
  \<open>scipy.signal.stft\<close>, \<open>numpy\<close> and \<open>scipy.signal.find_peaks\<close>) is the parameter
  \<open>find_peaks\<close>: from the capture, the sample rate and the length window it gives the
  STFT time step \<open>t[1]-t[0]\<close> and the peaks found.
\<close>

definition find_packet_candidate_time ::
  "('a list \<Rightarrow> rat \<Rightarrow> bool \<Rightarrow> rat \<times> bool) \<Rightarrow>
   ('a list \<Rightarrow> rat \<Rightarrow> rat \<times> rat \<Rightarrow> rat \<times> peak list) \<Rightarrow>
   'a list \<Rightarrow> rat \<Rightarrow> string \<Rightarrow> bool \<Rightarrow> py_error + ('a list list \<times> rat)" where
  "find_packet_candidate_time estimate_offset find_peaks raw_data Fs packet_type legacy =
     (case packet_len_bounds packet_type legacy of
        None \<Rightarrow> Inl UnboundLocalError
      | Some bounds \<Rightarrow>
          (let (dt, peaks) = find_peaks raw_data Fs bounds
           in Inr (packet_loop estimate_offset raw_data Fs dt legacy peaks ([], 0))))"

section \<open>droneid\_receiver\_live.py\<close>

text \<open>
  What the collaborators \<open>Decoder\<close> and \<open>DroneIDPacket\<close> do with one phase
  hypothesis: \<open>raw_data_to_symbol_bits\<close> or \<open>magic\<close> raises, \<open>magic\<close> returns
  nothing, \<open>DroneIDPacket(...)\<close> raises, or a packet is parsed and \<open>check_crc()\<close>
  returns the given value.
\<close>

datatype phase_result = DecodeRaised | NoDuml | ParseRaised | Parsed bool

text \<open>
  What the collaborators do with one entry of \<open>capture.packets\<close>:
  \<open>get_packet_samples\<close> raises ValueError, \<open>Packet(...)\<close> raises, symbol extraction
  raises, or a decoder is built, with its result for every phase hypothesis.
\<close>

datatype packet_result =
  SamplesFailed | PacketFailed | SymbolsFailed | Symbols "nat \<Rightarrow> phase_result"

text \<open>
  Events of one run: a call \<open>decoder.raw_data_to_symbol_bits(phase)\<close>, and a parsed
  packet printed as JSON, with the phase and the result of its CRC check.
\<close>

datatype event = TryPhase nat | Frame nat bool

text \<open>
  The locals \<open>found\<close> and \<open>packets_processed\<close> of \<open>run_demod\<close>, the module's
  global counters, and the events so far.
\<close>

record demod_state =
  found :: bool
  packets_processed :: int
  crc_err :: int
  correct_pkt :: int
  total_num_pkt :: int
  trace :: "event list"

definition max_packets_to_process :: int where
  "max_packets_to_process = 5"

text \<open>The loop \<open>for phase_corr in range(4)\<close> over the phases still to try.\<close>

fun phase_loop :: "(nat \<Rightarrow> phase_result) \<Rightarrow> nat list \<Rightarrow> demod_state \<Rightarrow> demod_state" where
  "phase_loop attempt [] st = st"
| "phase_loop attempt (phase_corr # rest) st =
     (let st1 = st\<lparr> trace := trace st @ [TryPhase phase_corr] \<rparr>
      in case attempt phase_corr of
           DecodeRaised \<Rightarrow> phase_loop attempt rest st1
         | NoDuml \<Rightarrow> phase_loop attempt rest st1
         | ParseRaised \<Rightarrow> phase_loop attempt rest st1
         | Parsed crc_ok \<Rightarrow>
             (let st2 = st1\<lparr> found := True, trace := trace st1 @ [Frame phase_corr crc_ok] \<rparr>
              in if \<not> crc_ok then
                   phase_loop attempt rest (st2\<lparr> crc_err := crc_err st2 + 1 \<rparr>)
                 else st2\<lparr> correct_pkt := correct_pkt st2 + 1 \<rparr>))"

text \<open>The loop over \<open>capture.packets\<close> of one chunk.\<close>

fun packets_loop :: "packet_result list \<Rightarrow> demod_state \<Rightarrow> demod_state" where
  "packets_loop [] st = st"
| "packets_loop (pkt # rest) st =
     (if packets_processed st \<ge> max_packets_to_process then st
      else case pkt of
             SamplesFailed \<Rightarrow> packets_loop rest st
           | PacketFailed \<Rightarrow> packets_loop rest st
           | SymbolsFailed \<Rightarrow>
               packets_loop rest (st\<lparr> packets_processed := packets_processed st + 1 \<rparr>)
           | Symbols attempt \<Rightarrow>
               packets_loop rest
                 (phase_loop attempt [0, 1, 2, 3]
                    (st\<lparr> packets_processed := packets_processed st + 1 \<rparr>)))"

text \<open>
  The loop \<open>for i in range(chunks)\<close> over the chunk indices still to visit.
  \<open>spectrum_capture\<close> stands for \<open>SC.SpectrumCapture\<close> and the collaborators after
  it: for the samples of a chunk it gives one \<open>packet_result\<close> for every entry of
  \<open>capture.packets\<close>.
\<close>

fun chunks_loop ::
  "('a list \<Rightarrow> packet_result list) \<Rightarrow> 'a list \<Rightarrow> int \<Rightarrow> int list \<Rightarrow> demod_state \<Rightarrow> demod_state" where
  "chunks_loop spectrum_capture samples chunk_samples [] st = st"
| "chunks_loop spectrum_capture samples chunk_samples (i # rest) st =
     (if packets_processed st \<ge> max_packets_to_process then st
      else
        (let chunk_data = py_slice samples (i * chunk_samples) ((i + 1) * chunk_samples);
             packets = spectrum_capture chunk_data;
             st1 = st\<lparr> total_num_pkt := total_num_pkt st + int (length packets) \<rparr>
         in if length packets = 0 then
              chunks_loop spectrum_capture samples chunk_samples rest st1
            else
              chunks_loop spectrum_capture samples chunk_samples rest
                (packets_loop packets st1)))"

text \<open>\<open>range(n)\<close>, empty for \<open>n \<le> 0\<close>.\<close>

definition py_range :: "int \<Rightarrow> int list" where
  "py_range n = map int [0..<nat n]"

text \<open>
  \<open>run_demod\<close>, started with the global counters of \<open>st0\<close>. The value returned by
  the source is the field \<open>found\<close> of the result.
\<close>

definition run_demod ::
  "('a list \<Rightarrow> packet_result list) \<Rightarrow> 'a list \<Rightarrow> rat \<Rightarrow> demod_state \<Rightarrow> py_error + demod_state" where
  "run_demod spectrum_capture samples rate st0 =
     (let chunk_samples = py_int (250 / 1000 * rate)
      in if chunk_samples = 0 then Inl ZeroDivisionError
         else
           (let chunks = int (length samples) div chunk_samples
            in Inr (chunks_loop spectrum_capture samples chunk_samples (py_range chunks)
                      (st0\<lparr> found := False, packets_processed := 0, trace := [] \<rparr>))))"

text \<open>
  The state of one worker in \<open>process_samples\<close>: what it has put on the detection
  queue, its own scanner, and the global counters.
\<close>

record worker_state =
  detection_queue :: "rat option list"
  scanner :: FrequencyScanner
  counters :: demod_state

text \<open>
  One round of the loop of \<open>process_samples\<close> for an item \<open>(samples, frequency)\<close>
  taken from the sample queue.
\<close>

definition process_item ::
  "('a list \<Rightarrow> packet_result list) \<Rightarrow> rat \<Rightarrow> 'a list \<Rightarrow> rat \<Rightarrow> worker_state \<Rightarrow> py_error + worker_state" where
  "process_item spectrum_capture rate samples frequency w =
     (case run_demod spectrum_capture samples rate (counters w) of
        Inl e \<Rightarrow> Inl e
      | Inr st \<Rightarrow>
          Inr \<lparr> detection_queue =
                  detection_queue w @ [if found st then Some frequency else None],
                scanner =
                  (if found st then lock_frequency (scanner w) frequency
                   else record_detection (scanner w) False),
                counters = st \<rparr>)"

section \<open>Properties of the frequency scanner\<close>

lemma record_many_False_locked:
  "state s = LOCKED \<Longrightarrow> 0 \<le> empty_scan_count s \<Longrightarrow> empty_scan_count s + int k \<le> 9 \<Longrightarrow>
   record_many k False s = s\<lparr> empty_scan_count := empty_scan_count s + int k \<rparr>"
proof (induction k arbitrary: s)
  case 0
  then show ?case by simp
next
  case (Suc k)
  let ?s' = "s\<lparr> empty_scan_count := empty_scan_count s + 1 \<rparr>"
  have step: "record_detection s False = ?s'"
    using Suc.prems by (simp add: record_detection_def UNLOCK_THRESHOLD_def Let_def)
  have "record_many k False ?s' = ?s'\<lparr> empty_scan_count := empty_scan_count ?s' + int k \<rparr>"
    using Suc.prems by (intro Suc.IH) simp_all
  then show ?case using step by (simp add: add.assoc)
qed

lemma record_many_after_lock:
  "k \<le> 9 \<Longrightarrow>
   record_many k False (lock_frequency s f) = (lock_frequency s f)\<lparr> empty_scan_count := int k \<rparr>"
  using record_many_False_locked [of "lock_frequency s f" k]
  by (simp add: lock_frequency_def)

lemma record_many_Suc: "record_many (Suc k) d s = record_detection (record_many k d s) d"
  by (induction k arbitrary: s) simp_all

text \<open>
  Claim C3. After \<open>lock_frequency\<close>, up to 9 consecutive non-detections leave the
  scanner LOCKED on the same frequency, with the counter equal to their number; the
  10th puts it in SCANNING with the locked frequency cleared and the counter 0; and a
  detection after fewer than 10 non-detections resets the counter to 0 and leaves the
  scanner LOCKED on the same frequency.
\<close>

theorem lock_then_ten_misses_unlock:
  "(\<forall>k\<le>9. state (record_many k False (lock_frequency s f)) = LOCKED
          \<and> locked_frequency (record_many k False (lock_frequency s f)) = Some f
          \<and> empty_scan_count (record_many k False (lock_frequency s f)) = int k)
   \<and> state (record_many 10 False (lock_frequency s f)) = SCANNING
   \<and> locked_frequency (record_many 10 False (lock_frequency s f)) = None
   \<and> empty_scan_count (record_many 10 False (lock_frequency s f)) = 0
   \<and> (\<forall>k<10. state (record_detection (record_many k False (lock_frequency s f)) True) = LOCKED
          \<and> locked_frequency (record_detection (record_many k False (lock_frequency s f)) True) = Some f
          \<and> empty_scan_count (record_detection (record_many k False (lock_frequency s f)) True) = 0)"
proof -
  have nine: "record_many 9 False (lock_frequency s f) = (lock_frequency s f)\<lparr> empty_scan_count := 9 \<rparr>"
    using record_many_after_lock [of 9 s f] by simp
  have ten: "record_many 10 False (lock_frequency s f)
               = record_detection (record_many 9 False (lock_frequency s f)) False"
    using record_many_Suc [of 9 False "lock_frequency s f"] by simp
  show ?thesis
    by (simp add: ten nine record_many_after_lock)
       (simp add: lock_frequency_def record_detection_def unlock_frequency_def
          UNLOCK_THRESHOLD_def Let_def)
qed

theorem lock_then_ten_misses_unlock_witness:
  "(9::nat) \<le> 9
   \<and> state (record_many 9 False
        (lock_frequency (scanner_init (13 / 10) 50000000 False) 2459500000)) = LOCKED
   \<and> empty_scan_count (record_many 9 False
        (lock_frequency (scanner_init (13 / 10) 50000000 False) 2459500000)) = 9
   \<and> (4::nat) < 10
   \<and> empty_scan_count (record_detection (record_many 4 False
        (lock_frequency (scanner_init (13 / 10) 50000000 False) 2459500000)) True) = 0"
proof -
  have a: "(9::nat) \<le> 9" by simp
  have b: "(4::nat) < 10" by simp
  note t = lock_then_ten_misses_unlock
    [of "scanner_init (13 / 10) 50000000 False" 2459500000]
  from t a have "state (record_many 9 False
        (lock_frequency (scanner_init (13 / 10) 50000000 False) 2459500000)) = LOCKED
     \<and> empty_scan_count (record_many 9 False
        (lock_frequency (scanner_init (13 / 10) 50000000 False) 2459500000)) = int 9"
    by blast
  moreover from t b have "empty_scan_count (record_detection (record_many 4 False
        (lock_frequency (scanner_init (13 / 10) 50000000 False) 2459500000)) True) = 0"
    by blast
  ultimately show ?thesis by simp
qed

lemma get_next_frequency_scanning:
  assumes "state s = SCANNING" "0 \<le> current_index s"
    "current_index s < int (length (all_frequencies s))"
  shows "get_next_frequency s =
           Inr (all_frequencies s ! nat (current_index s),
                s\<lparr> current_index := (current_index s + 1) mod int (length (all_frequencies s)) \<rparr>)"
  using assms by (simp add: get_next_frequency_def py_index_def Let_def)

lemma next_frequencies_scanning:
  assumes "state s = SCANNING" "0 \<le> current_index s"
    "current_index s < int (length (all_frequencies s))"
  shows "next_frequencies k s =
           Inr (map (\<lambda>j. all_frequencies s ! ((nat (current_index s) + j) mod length (all_frequencies s))) [0..<k],
                s\<lparr> current_index := (current_index s + int k) mod int (length (all_frequencies s)) \<rparr>)"
  using assms
proof (induction k arbitrary: s)
  case 0
  then show ?case by simp
next
  case (Suc k)
  let ?n = "length (all_frequencies s)"
  let ?s' = "s\<lparr> current_index := (current_index s + 1) mod int ?n \<rparr>"
  have npos: "0 < ?n" using Suc.prems by auto
  have g: "get_next_frequency s = Inr (all_frequencies s ! nat (current_index s), ?s')"
    using Suc.prems by (rule get_next_frequency_scanning)
  have idx: "nat ((current_index s + 1) mod int ?n) = (nat (current_index s) + 1) mod ?n"
    using Suc.prems npos by (simp add: nat_mod_distrib nat_add_distrib)
  have ih: "next_frequencies k ?s' =
      Inr (map (\<lambda>j. all_frequencies ?s' ! ((nat (current_index ?s') + j) mod length (all_frequencies ?s'))) [0..<k],
           ?s'\<lparr> current_index := (current_index ?s' + int k) mod int (length (all_frequencies ?s')) \<rparr>)"
    using Suc.prems npos by (intro Suc.IH) simp_all
  have m: "map (\<lambda>j. all_frequencies s ! ((nat (current_index s) + j) mod ?n)) [0..<Suc k]
        = all_frequencies s ! nat (current_index s) #
          map (\<lambda>j. all_frequencies s ! (((nat (current_index s) + 1) mod ?n + j) mod ?n)) [0..<k]"
  proof -
    have "[0..<Suc k] = 0 # map Suc [0..<k]"
      by (simp add: upt_conv_Cons map_Suc_upt del: upt_Suc)
    moreover have "nat (current_index s) mod ?n = nat (current_index s)"
      using Suc.prems by simp
    ultimately show ?thesis
      by (simp add: mod_add_left_eq del: upt_Suc)
  qed
  have c: "((current_index s + 1) mod int ?n + int k) mod int ?n = (current_index s + int (Suc k)) mod int ?n"
  proof -
    have "((current_index s + 1) mod int ?n + int k) mod int ?n = ((current_index s + 1) + int k) mod int ?n"
      by (rule mod_add_left_eq)
    then show ?thesis by (simp add: add.assoc)
  qed
  have ih': "next_frequencies k ?s' =
      Inr (map (\<lambda>j. all_frequencies s ! (((nat (current_index s) + 1) mod ?n + j) mod ?n)) [0..<k],
           s\<lparr> current_index := (current_index s + int (Suc k)) mod int ?n \<rparr>)"
    using ih c by (simp add: idx del: One_nat_def)
  have "next_frequencies (Suc k) s =
      Inr (all_frequencies s ! nat (current_index s) #
           map (\<lambda>j. all_frequencies s ! (((nat (current_index s) + 1) mod ?n + j) mod ?n)) [0..<k],
           s\<lparr> current_index := (current_index s + int (Suc k)) mod int ?n \<rparr>)"
    by (simp only: next_frequencies.simps g ih' sum.case prod.case)
  then show ?case by (simp only: m)
qed

lemma map_mod_rotate:
  "i < length xs \<Longrightarrow> map (\<lambda>j. xs ! ((i + j) mod length xs)) [0..<length xs] = rotate i xs"
  by (rule nth_equalityI) (simp_all add: nth_rotate)

lemma next_frequencies_append:
  "next_frequencies a s = Inr (fs, s') \<Longrightarrow> next_frequencies b s' = Inr (gs, s'') \<Longrightarrow>
   next_frequencies (a + b) s = Inr (fs @ gs, s'')"
  by (induction a arbitrary: s fs) (auto split: sum.splits prod.splits)

text \<open>
  The cursor stays inside the channel list, and a LOCKED scanner has a locked
  frequency: both hold after \<open>__init__\<close> and are kept by every method.
\<close>

definition scanner_inv :: "FrequencyScanner \<Rightarrow> bool" where
  "scanner_inv s \<longleftrightarrow>
     0 \<le> current_index s \<and> current_index s < int (length (all_frequencies s))
     \<and> (state s = LOCKED \<longrightarrow> locked_frequency s \<noteq> None)"

lemma scanner_inv_init: "scanner_inv (scanner_init d r b)"
  by (simp add: scanner_inv_def scanner_init_def FREQUENCIES_2_4GHZ_def FREQUENCIES_5_8GHZ_def)

lemma scanner_inv_methods:
  assumes "scanner_inv s"
  shows "scanner_inv (lock_frequency s f)" "scanner_inv (unlock_frequency s)"
    "scanner_inv (record_detection s d)" "scanner_inv (reset s)"
  using assms
  by (auto simp: scanner_inv_def lock_frequency_def unlock_frequency_def record_detection_def
        reset_def Let_def)

lemma scanner_inv_get_next_frequency:
  assumes "scanner_inv s" "get_next_frequency s = Inr (g, s')"
  shows "scanner_inv s'"
proof -
  have n: "0 < int (length (all_frequencies s))"
    using assms(1) by (auto simp: scanner_inv_def)
  have "0 \<le> (current_index s + 1) mod int (length (all_frequencies s))"
    "(current_index s + 1) mod int (length (all_frequencies s)) < int (length (all_frequencies s))"
    using n by (simp_all only: pos_mod_sign pos_mod_bound)
  then show ?thesis
    using assms
    by (auto simp: scanner_inv_def get_next_frequency_def py_index_def Let_def
        split: if_splits option.splits sum.splits)
qed

lemma scanner_init_channels:
  "distinct (all_frequencies (scanner_init d r b))"
  "state (scanner_init d r b) = SCANNING" "current_index (scanner_init d r b) = 0"
  by (simp_all add: scanner_init_def FREQUENCIES_2_4GHZ_def FREQUENCIES_5_8GHZ_def)

text \<open>
  Claim C6. For a SCANNING scanner with \<open>N\<close> channels and its cursor inside the
  list, \<open>N\<close> consecutive calls of \<open>get_next_frequency\<close> return the channel list
  rotated to the cursor (every position of the list once, in list order, the whole
  list itself when the cursor is 0) and leave the scanner as it was, so that the next
  \<open>N\<close> calls return the same again; and a LOCKED scanner returns its locked
  frequency and does not move, whatever the cursor is.
\<close>

theorem get_next_frequency_cycle:
  "(state s = SCANNING \<and> 0 \<le> current_index s \<and> current_index s < int (length (all_frequencies s)) \<longrightarrow>
      next_frequencies (length (all_frequencies s)) s
        = Inr (rotate (nat (current_index s)) (all_frequencies s), s)
    \<and> next_frequencies (length (all_frequencies s) + length (all_frequencies s)) s
        = Inr (rotate (nat (current_index s)) (all_frequencies s)
               @ rotate (nat (current_index s)) (all_frequencies s), s))
   \<and> (state s = LOCKED \<and> locked_frequency s = Some f \<longrightarrow> get_next_frequency s = Inr (f, s))"
proof -
  have one: "next_frequencies (length (all_frequencies s)) s
        = Inr (rotate (nat (current_index s)) (all_frequencies s), s)"
    if a: "state s = SCANNING" "0 \<le> current_index s" "current_index s < int (length (all_frequencies s))"
  proof -
    have "nat (current_index s) < length (all_frequencies s)" using a by simp
    then show ?thesis
      using a next_frequencies_scanning [OF a, of "length (all_frequencies s)"]
      by (simp add: map_mod_rotate)
  qed
  show ?thesis
    using one next_frequencies_append [of "length (all_frequencies s)" s _ s "length (all_frequencies s)" _ s]
    by (auto simp: get_next_frequency_def)
qed

theorem get_next_frequency_cycle_witness:
  "state ((scanner_init (13 / 10) 50000000 True)\<lparr> current_index := 2 \<rparr>) = SCANNING
   \<and> next_frequencies 6 ((scanner_init (13 / 10) 50000000 True)\<lparr> current_index := 2 \<rparr>)
     = Inr ([2429500000, 2474500000, 2434500000, 2414500000, 2459500000, 2444500000],
            (scanner_init (13 / 10) 50000000 True)\<lparr> current_index := 2 \<rparr>)
   \<and> state ((lock_frequency (scanner_init (13 / 10) 50000000 True) 2444500000)\<lparr> current_index := 3 \<rparr>) = LOCKED
   \<and> get_next_frequency ((lock_frequency (scanner_init (13 / 10) 50000000 True) 2444500000)\<lparr> current_index := 3 \<rparr>)
     = Inr (2444500000, (lock_frequency (scanner_init (13 / 10) 50000000 True) 2444500000)\<lparr> current_index := 3 \<rparr>)"
proof -
  let ?s = "(scanner_init (13 / 10) 50000000 True)\<lparr> current_index := 2 \<rparr>"
  let ?l = "(lock_frequency (scanner_init (13 / 10) 50000000 True) 2444500000)\<lparr> current_index := 3 \<rparr>"
  have len: "length (all_frequencies ?s) = 6"
    by (simp add: scanner_init_def FREQUENCIES_2_4GHZ_def)
  have h: "state ?s = SCANNING \<and> 0 \<le> current_index ?s \<and> current_index ?s < int (length (all_frequencies ?s))"
    by (simp add: scanner_init_def FREQUENCIES_2_4GHZ_def)
  have "next_frequencies (length (all_frequencies ?s)) ?s
          = Inr (rotate (nat (current_index ?s)) (all_frequencies ?s), ?s)"
    using get_next_frequency_cycle [of ?s 0] h by blast
  moreover have "rotate (nat (current_index ?s)) (all_frequencies ?s)
      = [2429500000, 2474500000, 2434500000, 2414500000, 2459500000, 2444500000]"
    by (simp add: scanner_init_def FREQUENCIES_2_4GHZ_def rotate_def numeral_2_eq_2)
  ultimately have a: "next_frequencies 6 ?s
     = Inr ([2429500000, 2474500000, 2434500000, 2414500000, 2459500000, 2444500000], ?s)"
    by (simp only: len)
  have k: "state ?l = LOCKED \<and> locked_frequency ?l = Some 2444500000"
    by (simp add: lock_frequency_def)
  have b: "get_next_frequency ?l = Inr (2444500000, ?l)"
    using get_next_frequency_cycle [of ?l 2444500000] k by blast
  show ?thesis using a b h k by simp
qed

end
